theory Spec2Isabelle
  imports Main "HOL-Library.Word"
begin

section \<open>Push synchronisation: data model\<close>

text \<open>
  The package \<open>pushsync\<close> talks to four collaborators that are interfaces handed in through
  \<open>Options\<close>: a streamer (opens outbound streams), a storer (local store), a peer suggester
  (closest-peer routing) and a logger. Their answers are not decided by this package, so every
  function below takes the answers of the calls it makes as an argument (an environment
  record), and every call it makes on a collaborator is appended to a log of calls kept
  beside the instance's own fields. Errors are values; a panic is the left summand of the
  result of \<open>Close\<close>.
\<close>

type_synonym bytes = "8 word list"

text \<open>\<open>swarm.Address\<close> wraps a byte slice; \<open>swarm.NewAddress\<close> and \<open>Bytes\<close> convert.\<close>

type_synonym address = bytes

definition NewAddress :: "bytes \<Rightarrow> address" where
  "NewAddress b = b"

definition Bytes :: "address \<Rightarrow> bytes" where
  "Bytes a = a"

text \<open>\<open>swarm.Chunk\<close>, built by \<open>swarm.NewChunk(addr, data)\<close>, read by \<open>Address()\<close> and \<open>Data()\<close>.\<close>

datatype chunk = NewChunk (Address: address) (Data: bytes)

text \<open>The wire messages \<open>pb.Delivery\<close> and \<open>pb.Receipt\<close>. The zero value of a message has
  empty fields.\<close>

datatype Delivery = Delivery (d_Address: bytes) (d_Data: bytes)

datatype Receipt = Receipt (r_Address: bytes)

definition zero_Receipt :: Receipt where
  "zero_Receipt = Receipt []"

text \<open>Errors. \<open>Wrap\<close> is an error built by \<open>fmt.Errorf\<close> with the verb \<open>%w\<close>;
  \<open>MaxRetriesExhausted\<close> is the error built at the retry check of
  \<open>sendChunkAndReceiveReceipt\<close>; \<open>ErrMsg\<close> stands for any other error of a collaborator.\<close>

datatype err =
    ErrWantSelf
  | EOF
  | ErrMsg string
  | Wrap string err
  | MaxRetriesExhausted address

text \<open>\<open>errors.Is\<close> follows the chain of wrapped errors.\<close>

fun errors_Is :: "err \<Rightarrow> err \<Rightarrow> bool" where
  "errors_Is (Wrap m e) target = (Wrap m e = target \<or> errors_Is e target)"
| "errors_Is e target = (e = target)"

datatype ModePut = ModePutSync | ModePutUpload

datatype ModeSet = ModeSetSyncPush

text \<open>The calls made on the collaborators, in the order they are made. Durations are in
  milliseconds.\<close>

datatype effect =
    Stream_ReadMsg
  | Stream_WriteMsg Receipt
  | Stream_WriteMsgWithTimeout nat Delivery
  | Stream_Close
  | Storer_Put ModePut chunk
  | Storer_Set ModeSet address
  | Storer_SubscribePush
  | Storer_Unsubscribe
  | ClosestPeer address
  | Streamer_NewStream address string string string
  | Logger_Error string
  | Timer_Reset nat

text \<open>The counters of \<open>ps.metrics\<close> that the code increments. The three timing histograms
  (\<open>SendChunkTimer\<close>, \<open>ReceiptRTT\<close>, \<open>MarkAndSweepTimer\<close>) take wall-clock readings and are
  left out.\<close>

record metrics =
  ReceivedChunkErrorCounter :: nat
  ChunksSentCounter :: nat
  SendReceiptErrorCounter :: nat
  ReceiptsSentCounter :: nat
  ErrorSettingChunkToSynced :: nat
  TotalChunksSynced :: nat
  TotalChunksToBeSentCounter :: nat
  RetriesExhaustedCounter :: nat
  SendChunkErrorCounter :: nat
  ReceiveReceiptErrorCounter :: nat
  ReceiptsReceivedCounter :: nat

definition newMetrics :: metrics where
  "newMetrics = \<lparr> ReceivedChunkErrorCounter = 0, ChunksSentCounter = 0,
     SendReceiptErrorCounter = 0, ReceiptsSentCounter = 0, ErrorSettingChunkToSynced = 0,
     TotalChunksSynced = 0, TotalChunksToBeSentCounter = 0, RetriesExhaustedCounter = 0,
     SendChunkErrorCounter = 0, ReceiveReceiptErrorCounter = 0, ReceiptsReceivedCounter = 0 \<rparr>"

text \<open>A channel value: nil (the zero value of the field), open (after \<open>make\<close>) or closed.
  \<open>close\<close> of a nil channel and \<open>close\<close> of a closed channel panic.\<close>

datatype chan = ChanNil | ChanOpen | ChanClosed

datatype panic = CloseOfNilChannel | CloseOfClosedChannel

text \<open>The struct \<open>PushSync\<close>. \<open>retryChunks\<close> is keyed in the source by
  \<open>ch.Address().String()\<close>, the hexadecimal form of the address, which determines the
  address; the model keys it by the address. \<open>calls\<close> holds what the instance has done to
  its streamer, storer, peer suggester and logger.\<close>

record PushSync =
  retryChunks :: "address \<rightharpoonup> int"
  quit :: chan
  metrics :: metrics
  calls :: "effect list"

definition protocolName :: string where
  "protocolName = ''pushsync''"

definition protocolVersion :: string where
  "protocolVersion = ''1.0.0''"

definition streamName :: string where
  "streamName = ''pushsync''"

definition retryInterval :: nat where
  "retryInterval = 10 * 1000"

definition timeToWaitForReceipt :: nat where
  "timeToWaitForReceipt = 2 * 1000"

definition MaxRetries :: int where
  "MaxRetries = 3"

definition New :: PushSync where
  "New = \<lparr> retryChunks = Map.empty, quit = ChanOpen, metrics = newMetrics, calls = [] \<rparr>"

definition call :: "effect \<Rightarrow> PushSync \<Rightarrow> PushSync" where
  "call e ps = ps\<lparr> calls := calls ps @ [e] \<rparr>"

definition Inc :: "((nat \<Rightarrow> nat) \<Rightarrow> metrics \<Rightarrow> metrics) \<Rightarrow> PushSync \<Rightarrow> PushSync" where
  "Inc counter ps = ps\<lparr> metrics := counter (\<lambda>n. n + 1) (metrics ps) \<rparr>"

section \<open>Close\<close>

definition Close :: "PushSync \<Rightarrow> panic + (err option \<times> PushSync)" where
  "Close ps =
     (case quit ps of
        ChanNil \<Rightarrow> Inl CloseOfNilChannel
      | ChanClosed \<Rightarrow> Inl CloseOfClosedChannel
      | ChanOpen \<Rightarrow> Inr (None, ps\<lparr> quit := ChanClosed \<rparr>))"

section \<open>The delivery handler\<close>

text \<open>The answers the handler gets: the message read from the inbound stream, the result of
  \<open>storer.Put\<close>, of writing the receipt, of \<open>ClosestPeer\<close> (Go returns the pair of a peer and
  an error) and of \<open>storer.Set\<close>.\<close>

record handler_env =
  h_ReadMsg :: "err + Delivery"
  h_Put :: "err option"
  h_WriteMsg :: "err option"
  h_ClosestPeer :: "address \<times> err option"
  h_Set :: "err option"

text \<open>\<open>handler\<close>, lines 91 to 141. The deferred \<open>stream.Close()\<close> runs at every return. The
  variable \<open>peer\<close> is bound by the routing query and not used afterwards.\<close>

definition handler :: "handler_env \<Rightarrow> PushSync \<Rightarrow> err option \<times> PushSync" where
  "handler env ps0 =
     (let ps1 = call Stream_ReadMsg ps0 in
      case h_ReadMsg env of
        Inl e \<Rightarrow>
          (let ps2 = Inc ReceivedChunkErrorCounter_update ps1 in
           if e = EOF then (None, call Stream_Close ps2)
           else (Some e, call Stream_Close ps2))
      | Inr ch \<Rightarrow>
          (let ps2 = Inc ChunksSentCounter_update ps1;
               addr = NewAddress (d_Address ch);
               chunk = NewChunk addr (d_Data ch);
               ps3 = call (Storer_Put ModePutSync chunk) ps2 in
           case h_Put env of
             Some e \<Rightarrow> (Some e, call Stream_Close ps3)
           | None \<Rightarrow>
               (let receipt = zero_Receipt;
                    ps4 = call (Stream_WriteMsg receipt) ps3 in
                case h_WriteMsg env of
                  Some e \<Rightarrow>
                    (Some e, call Stream_Close (Inc SendReceiptErrorCounter_update ps4))
                | None \<Rightarrow>
                    (let ps5 = Inc ReceiptsSentCounter_update ps4;
                         ps6 = call (ClosestPeer addr) ps5;
                         (peer, err) = h_ClosestPeer env in
                     case err of
                       Some e \<Rightarrow>
                         if errors_Is e ErrWantSelf then (None, call Stream_Close ps6)
                         else (Some e, call Stream_Close ps6)
                     | None \<Rightarrow>
                         (let ps7 = call (Storer_Set ModeSetSyncPush (Address chunk)) ps6;
                              err' = h_Set env;
                              ps8 = (case err' of
                                       Some e \<Rightarrow>
                                         Inc ErrorSettingChunkToSynced_update
                                           (call (Logger_Error
                                              ''pushsync: error setting chunks to synced'') ps7)
                                     | None \<Rightarrow> ps7);
                              ps9 = Inc TotalChunksSynced_update ps8 in
                          (err', call Stream_Close ps9))))))"

section \<open>The point-to-point transfer\<close>

text \<open>The answers of one transfer: the result of \<open>NewStream\<close>, of writing the Delivery and of
  reading the Receipt.\<close>

record transfer_env =
  t_NewStream :: "err option"
  t_WriteMsg :: "err option"
  t_ReadMsg :: "err + Receipt"

text \<open>Lines 252 to 275 of \<open>sendChunkAndReceiveReceipt\<close>: write the Delivery with the
  timeout \<open>timeToWaitForReceipt\<close>, then read one Receipt with \<open>ReadMsg\<close>. The deferred
  \<open>streamer.Close()\<close> runs at every return.\<close>

definition write_and_read :: "transfer_env \<Rightarrow> chunk \<Rightarrow> PushSync \<Rightarrow> err option \<times> PushSync" where
  "write_and_read env ch ps2 =
     (let ps3 = call (Stream_WriteMsgWithTimeout timeToWaitForReceipt
                        (Delivery (Bytes (Address ch)) (Data ch))) ps2 in
      case t_WriteMsg env of
        Some e \<Rightarrow> (Some e, call Stream_Close (Inc SendChunkErrorCounter_update ps3))
      | None \<Rightarrow>
          (let ps4 = Inc ChunksSentCounter_update ps3;
               ps5 = call Stream_ReadMsg ps4 in
           case t_ReadMsg env of
             Inl e \<Rightarrow> (Some e, call Stream_Close (Inc ReceiveReceiptErrorCounter_update ps5))
           | Inr receipt \<Rightarrow>
               (None, call Stream_Close (Inc ReceiptsReceivedCounter_update ps5))))"

text \<open>\<open>sendChunkAndReceiveReceipt\<close>, lines 226 to 276. The stream is opened first, and a
  failure to open it returns before the map is read. \<open>noOfRetries\<close> is a local variable: its
  increment is not written to the map.\<close>

definition sendChunkAndReceiveReceipt ::
    "transfer_env \<Rightarrow> address \<Rightarrow> chunk \<Rightarrow> PushSync \<Rightarrow> err option \<times> PushSync" where
  "sendChunkAndReceiveReceipt env peer ch ps0 =
     (let ps1 = call (Streamer_NewStream peer protocolName protocolVersion streamName) ps0 in
      case t_NewStream env of
        Some e \<Rightarrow> (Some (Wrap ''new stream'' e), ps1)
      | None \<Rightarrow>
          (case retryChunks ps1 (Address ch) of
             Some noOfRetries \<Rightarrow>
               if noOfRetries > MaxRetries
               then
                 (let ps2 = ps1\<lparr> retryChunks := (retryChunks ps1)(Address ch := None) \<rparr>;
                      ps3 = Inc RetriesExhaustedCounter_update ps2 in
                  (Some (MaxRetriesExhausted (Address ch)), call Stream_Close ps3))
               else
                 (let noOfRetries' = noOfRetries + 1 in
                  write_and_read env ch ps1)
           | None \<Rightarrow>
               write_and_read env ch
                 (ps1\<lparr> retryChunks := (retryChunks ps1)(Address ch \<mapsto> 0) \<rparr>)))"

section \<open>The worker loop\<close>

text \<open>The local variables of \<open>chunksWorker\<close>: whether \<open>chunks\<close> and \<open>unsubscribe\<close> are
  non-nil, the counter \<open>chunksInBatch\<close>, and whether the function has returned.\<close>

record worker =
  chunks :: bool
  unsubscribe :: bool
  chunksInBatch :: int
  returned :: bool

text \<open>The answers of the calls made for one chunk taken from the feed.\<close>

record chunk_env =
  c_ClosestPeer :: "address \<times> err option"
  c_transfer :: transfer_env
  c_Set :: "err option"

text \<open>The case that \<open>select\<close> takes in one turn of the loop: a chunk received from the feed
  (\<open>more\<close> is true), the feed found closed (\<open>more\<close> is false), the timer, or \<open>quit\<close>.\<close>

datatype select_case =
    RecvChunk chunk chunk_env
  | RecvClosed
  | TimerC
  | Quit

definition worker_init :: worker where
  "worker_init = \<lparr> chunks = False, unsubscribe = False, chunksInBatch = - 1, returned = False \<rparr>"

text \<open>The body of the first \<open>select\<close> case after \<open>chunksInBatch++\<close>, lines 170 to 193. When the
  routing query fails with an error that is not want-self, control leaves the outer \<open>if\<close>
  and reaches the transfer with the peer the query returned.\<close>

definition handle_chunk :: "chunk \<Rightarrow> chunk_env \<Rightarrow> PushSync \<Rightarrow> PushSync" where
  "handle_chunk ch env ps0 =
     (let ps1 = Inc TotalChunksToBeSentCounter_update ps0;
          ps2 = call (ClosestPeer (Address ch)) ps1;
          (peer, err) = c_ClosestPeer env in
      if (case err of Some e \<Rightarrow> errors_Is e ErrWantSelf | None \<Rightarrow> False)
      then
        (let ps3 = call (Storer_Set ModeSetSyncPush (Address ch)) ps2 in
         case c_Set env of
           Some e \<Rightarrow> call (Logger_Error ''pushsync: error setting chunks to synced'') ps3
         | None \<Rightarrow> ps3)
      else
        (case sendChunkAndReceiveReceipt (c_transfer env) peer ch ps2 of
           (Some e, ps3) \<Rightarrow>
             call (Logger_Error ''error while sending chunk or receiving receipt'') ps3
         | (None, ps3) \<Rightarrow>
             (let ps4 = call (Storer_Set ModeSetSyncPush (Address ch)) ps3 in
              case c_Set env of
                Some e \<Rightarrow>
                  Inc ErrorSettingChunkToSynced_update
                    (call (Logger_Error ''pushsync: error setting chunks to synced'') ps4)
              | None \<Rightarrow> Inc TotalChunksSynced_update ps4)))"

text \<open>One turn of the \<open>for\<close> loop, lines 155 to 219. A receive from the nil channel is never
  ready, so a receive case offered while \<open>chunks\<close> is nil leaves the state as it is.\<close>

definition worker_step :: "select_case \<Rightarrow> worker \<times> PushSync \<Rightarrow> worker \<times> PushSync" where
  "worker_step c s =
     (let (w, ps) = s in
      case c of
        RecvClosed \<Rightarrow>
          if \<not> chunks w then (w, ps)
          else
            (let dur = (if chunksInBatch w = 0 then 500 else 0) in
             (w\<lparr> chunks := False \<rparr>, call (Timer_Reset dur) ps))
      | RecvChunk ch env \<Rightarrow>
          if \<not> chunks w then (w, ps)
          else (w\<lparr> chunksInBatch := chunksInBatch w + 1 \<rparr>, handle_chunk ch env ps)
      | TimerC \<Rightarrow>
          (let ps1 = (if unsubscribe w then call Storer_Unsubscribe ps else ps);
               ps2 = call Storer_SubscribePush ps1;
               ps3 = call (Timer_Reset retryInterval) ps2 in
           (w\<lparr> chunks := True, unsubscribe := True \<rparr>, ps3))
      | Quit \<Rightarrow>
          (let ps1 = (if unsubscribe w then call Storer_Unsubscribe ps else ps) in
           (w\<lparr> returned := True \<rparr>, ps1)))"

text \<open>The loop over the cases taken, until the function returns.\<close>

fun chunksWorker :: "select_case list \<Rightarrow> worker \<times> PushSync \<Rightarrow> worker \<times> PushSync" where
  "chunksWorker [] s = s"
| "chunksWorker (c # cs) s =
     (if returned (fst s) then s else chunksWorker cs (worker_step c s))"

section \<open>Observations on the log of calls\<close>

text \<open>The receipts written, the streams opened, the Deliveries written and the timer delays
  set, in order.\<close>

fun receipts_written :: "effect list \<Rightarrow> Receipt list" where
  "receipts_written [] = []"
| "receipts_written (Stream_WriteMsg r # es) = r # receipts_written es"
| "receipts_written (e # es) = receipts_written es"

fun streams_opened :: "effect list \<Rightarrow> address list" where
  "streams_opened [] = []"
| "streams_opened (Streamer_NewStream p n v s # es) = p # streams_opened es"
| "streams_opened (e # es) = streams_opened es"

fun deliveries_written :: "effect list \<Rightarrow> Delivery list" where
  "deliveries_written [] = []"
| "deliveries_written (Stream_WriteMsgWithTimeout t d # es) = d # deliveries_written es"
| "deliveries_written (e # es) = deliveries_written es"

fun timer_resets :: "effect list \<Rightarrow> nat list" where
  "timer_resets [] = []"
| "timer_resets (Timer_Reset d # es) = d # timer_resets es"
| "timer_resets (e # es) = timer_resets es"

text \<open>The deadline a call is made with: only \<open>WriteMsgWithTimeout\<close> takes one.\<close>

fun deadline :: "effect \<Rightarrow> nat option" where
  "deadline (Stream_WriteMsgWithTimeout t d) = Some t"
| "deadline e = None"

section \<open>The inputs of the package's tests\<close>

text \<open>\<open>pushsync_test.go\<close> uses one chunk, at address \<open>7000...\<close> with data \<open>"1234"\<close>, a pivot
  node \<open>0000...\<close> and a closest peer \<open>6000...\<close>.\<close>

definition chunkAddress :: address where
  "chunkAddress = 0x70 # replicate 31 0"

definition chunkData :: bytes where
  "chunkData = [0x31, 0x32, 0x33, 0x34]"

definition pivotNode :: address where
  "pivotNode = replicate 32 0"

definition closestPeer :: address where
  "closestPeer = 0x60 # replicate 31 0"

text \<open>The handler is given the test's Delivery; storage and the receipt write succeed.
  Routing answers with the closest peer (\<open>mock.WithClosestPeer\<close>) or with want-self
  (\<open>mock.WithClosestPeerErr(topology.ErrWantSelf)\<close>).\<close>

definition env_closer_peer :: handler_env where
  "env_closer_peer =
     \<lparr> h_ReadMsg = Inr (Delivery chunkAddress chunkData), h_Put = None, h_WriteMsg = None,
       h_ClosestPeer = (closestPeer, None), h_Set = None \<rparr>"

definition env_want_self :: handler_env where
  "env_want_self =
     \<lparr> h_ReadMsg = Inr (Delivery chunkAddress chunkData), h_Put = None, h_WriteMsg = None,
       h_ClosestPeer = ([], Some ErrWantSelf), h_Set = None \<rparr>"

text \<open>A transfer in which every step succeeds, one whose Delivery write fails, and one whose
  stream cannot be opened.\<close>

definition transfer_ok :: transfer_env where
  "transfer_ok =
     \<lparr> t_NewStream = None, t_WriteMsg = None, t_ReadMsg = Inr (Receipt chunkAddress) \<rparr>"

definition transfer_write_fails :: transfer_env where
  "transfer_write_fails =
     \<lparr> t_NewStream = None, t_WriteMsg = Some (ErrMsg ''write: deadline exceeded''),
       t_ReadMsg = Inr (Receipt chunkAddress) \<rparr>"

text \<open>A chunk from the feed for which routing fails with an error that is not want-self, and
  one for which routing answers want-self.\<close>

definition chunk_routing_fails :: chunk_env where
  "chunk_routing_fails =
     \<lparr> c_ClosestPeer = ([], Some (ErrMsg ''no peer found'')), c_transfer = transfer_ok,
       c_Set = None \<rparr>"

definition chunk_want_self :: chunk_env where
  "chunk_want_self =
     \<lparr> c_ClosestPeer = ([], Some ErrWantSelf), c_transfer = transfer_ok, c_Set = None \<rparr>"

text \<open>A chunk from the feed that routing sends to the closest peer and whose transfer fails at
  the Delivery write, and one sweep of the worker that meets it: the timer fires, the worker
  subscribes anew and receives the chunk.\<close>

definition chunk_write_fails :: chunk_env where
  "chunk_write_fails =
     \<lparr> c_ClosestPeer = (closestPeer, None), c_transfer = transfer_write_fails,
       c_Set = None \<rparr>"

definition sweep_write_fails :: "select_case list" where
  "sweep_write_fails = [TimerC, RecvChunk (NewChunk chunkAddress chunkData) chunk_write_fails]"

section \<open>The handler\<close>

lemmas handler_unfold = handler_def Let_def call_def Inc_def NewAddress_def zero_Receipt_def

text \<open>What the handler does once the Delivery is read, stored and acknowledged and routing
  returns a peer: it marks the chunk synced and returns; the peer is not contacted.\<close>

lemma handler_peer_calls:
  assumes "h_ReadMsg env = Inr d" and "h_Put env = None" and "h_WriteMsg env = None"
    and "h_ClosestPeer env = (p, None)"
  shows "fst (handler env ps) = h_Set env"
    and "calls (snd (handler env ps)) =
           calls ps @
           [Stream_ReadMsg, Storer_Put ModePutSync (NewChunk (d_Address d) (d_Data d)),
            Stream_WriteMsg (Receipt []), ClosestPeer (d_Address d),
            Storer_Set ModeSetSyncPush (d_Address d)] @
           (case h_Set env of
              None \<Rightarrow> []
            | Some e \<Rightarrow> [Logger_Error ''pushsync: error setting chunks to synced'']) @
           [Stream_Close]"
  using assms by (simp_all add: handler_unfold split: option.splits)

lemma receipts_written_append:
  "receipts_written (xs @ ys) = receipts_written xs @ receipts_written ys"
  by (induction xs rule: receipts_written.induct) simp_all

lemma streams_opened_append:
  "streams_opened (xs @ ys) = streams_opened xs @ streams_opened ys"
  by (induction xs rule: streams_opened.induct) simp_all

lemma timer_resets_append:
  "timer_resets (xs @ ys) = timer_resets xs @ timer_resets ys"
  by (induction xs rule: timer_resets.induct) simp_all

text \<open>On no path does the handler open a stream, and the only receipt it ever writes is the
  zero value of the message.\<close>

lemma handler_opens_no_stream:
  "streams_opened (calls (snd (handler env ps))) = streams_opened (calls ps)"
  by (simp add: handler_unfold streams_opened_append
      split: sum.splits option.splits prod.splits)

lemma handler_receipts_written:
  "receipts_written (calls (snd (handler env ps))) =
     receipts_written (calls ps) @
     (case h_ReadMsg env of
        Inl e \<Rightarrow> []
      | Inr d \<Rightarrow> (case h_Put env of Some e \<Rightarrow> [] | None \<Rightarrow> [Receipt []]))"
  by (simp add: handler_unfold receipts_written_append
      split: sum.splits option.splits prod.splits)

text \<open>
  C1. At the input of \<open>TestForwardChunk\<close> (a Delivery for the chunk \<open>7000...\<close>, routing
  returns the peer \<open>6000...\<close>, storage and the receipt write succeed) the handler reads,
  stores, acknowledges, queries routing, marks the chunk synced and closes the inbound stream:
  it opens no stream to the peer and writes no Delivery.
\<close>

theorem handler_forwards_nothing:
  "fst (handler env_closer_peer New) = None \<and>
   calls (snd (handler env_closer_peer New)) =
     [Stream_ReadMsg, Storer_Put ModePutSync (NewChunk chunkAddress chunkData),
      Stream_WriteMsg (Receipt []), ClosestPeer chunkAddress,
      Storer_Set ModeSetSyncPush chunkAddress, Stream_Close] \<and>
   streams_opened (calls (snd (handler env_closer_peer New))) = []"
  by (simp add: handler_unfold env_closer_peer_def New_def)

text \<open>
  C9. At the input of \<open>TestGetChunkAndSendReceipt\<close> the one receipt the handler writes has
  an empty address field, which is not the address of the chunk it acknowledges.
\<close>

theorem handler_receipt_address_empty:
  "receipts_written (calls (snd (handler env_closer_peer New))) = [Receipt []] \<and>
   r_Address (Receipt []) \<noteq> Bytes chunkAddress"
  by (simp add: handler_unfold env_closer_peer_def New_def chunkAddress_def Bytes_def)

text \<open>
  C5, as stated, fails: at the input of \<open>TestNoForwardChunk\<close> (routing answers want-self) the
  handler returns without a call that marks the chunk synced.
\<close>

theorem handler_want_self_counterexample:
  "Storer_Set ModeSetSyncPush chunkAddress \<notin> set (calls (snd (handler env_want_self New)))"
  by (simp add: handler_unfold env_want_self_def New_def)

text \<open>
  C5, amended. When the Delivery is read, stored and acknowledged and routing reports
  want-self, the handler returns nil and its calls are exactly: read the Delivery, store the
  chunk in sync mode, write one Receipt, query routing, close the inbound stream. It opens no
  stream and makes no call that marks the chunk synced.
\<close>

theorem handler_want_self:
  assumes "h_ReadMsg env = Inr d" and "h_Put env = None" and "h_WriteMsg env = None"
    and "h_ClosestPeer env = (p, Some e)" and "errors_Is e ErrWantSelf"
  shows "fst (handler env ps) = None \<and>
         calls (snd (handler env ps)) =
           calls ps @
           [Stream_ReadMsg, Storer_Put ModePutSync (NewChunk (d_Address d) (d_Data d)),
            Stream_WriteMsg (Receipt []), ClosestPeer (d_Address d), Stream_Close]"
  using assms by (simp add: handler_unfold)

theorem handler_want_self_witness:
  "fst (handler env_want_self New) = None \<and>
   calls (snd (handler env_want_self New)) =
     [Stream_ReadMsg, Storer_Put ModePutSync (NewChunk chunkAddress chunkData),
      Stream_WriteMsg (Receipt []), ClosestPeer chunkAddress, Stream_Close]"
  using handler_want_self [of env_want_self "Delivery chunkAddress chunkData" "[]" ErrWantSelf New]
  by (simp add: env_want_self_def New_def)

section \<open>The point-to-point transfer\<close>

lemmas transfer_unfold =
  sendChunkAndReceiveReceipt_def write_and_read_def Let_def call_def Inc_def

text \<open>The tracker after a transfer whose stream was opened: an entry above \<open>MaxRetries\<close> is
  removed, any other entry is kept as it was, and a missing entry is created with count 0.
  Nothing else is ever written to the tracker.\<close>

lemma transfer_retryChunks:
  "retryChunks (snd (sendChunkAndReceiveReceipt env peer ch ps)) =
     (case t_NewStream env of
        Some e \<Rightarrow> retryChunks ps
      | None \<Rightarrow>
          (case retryChunks ps (Address ch) of
             None \<Rightarrow> (retryChunks ps)(Address ch \<mapsto> 0)
           | Some n \<Rightarrow>
               if n > MaxRetries then (retryChunks ps)(Address ch := None)
               else retryChunks ps))"
  by (simp add: transfer_unfold split: option.splits sum.splits)

lemma transfer_success_not_exhausted:
  assumes "fst (sendChunkAndReceiveReceipt env peer ch ps) = None"
  shows "t_NewStream env = None"
    and "\<forall>n. retryChunks ps (Address ch) = Some n \<longrightarrow> \<not> n > MaxRetries"
  using assms by (auto simp add: transfer_unfold split: option.splits sum.splits if_splits)

text \<open>Every entry the code writes is 0, so on an instance made by \<open>New\<close> no entry ever
  holds another count.\<close>

lemma transfer_entries_zero:
  assumes "\<forall>a n. retryChunks ps a = Some n \<longrightarrow> n = 0"
  shows "\<forall>a n. retryChunks (snd (sendChunkAndReceiveReceipt env peer ch ps)) a = Some n
           \<longrightarrow> n = 0"
  using assms by (auto simp add: transfer_retryChunks split: option.splits if_splits)

text \<open>On a tracker whose entries are all 0 the retry check never gives up: once the stream is
  open the Delivery is written, and the exhaustion counter stays as it was.\<close>

lemma transfer_on_zero_entries:
  assumes "\<forall>a n. retryChunks ps a = Some n \<longrightarrow> n = 0"
  shows "sendChunkAndReceiveReceipt env peer ch ps =
           (case t_NewStream env of
              Some e \<Rightarrow>
                (Some (Wrap ''new stream'' e),
                 call (Streamer_NewStream peer protocolName protocolVersion streamName) ps)
            | None \<Rightarrow>
                write_and_read env ch
                  ((call (Streamer_NewStream peer protocolName protocolVersion streamName) ps)
                     \<lparr> retryChunks := (retryChunks ps)(Address ch \<mapsto> 0) \<rparr>))"
proof (cases "retryChunks ps (Address ch)")
  case None
  then show ?thesis
    by (simp add: sendChunkAndReceiveReceipt_def Let_def call_def split: option.splits)
next
  case (Some n)
  with assms have n: "n = 0" by simp
  with Some have "(retryChunks ps)(Address ch \<mapsto> 0) = retryChunks ps"
    by (simp add: map_upd_triv)
  with Some n show ?thesis
    by (simp add: sendChunkAndReceiveReceipt_def Let_def call_def MaxRetries_def
        split: option.splits)
qed

lemma write_and_read_exhausted_counter:
  "RetriesExhaustedCounter (metrics (snd (write_and_read env ch ps))) =
     RetriesExhaustedCounter (metrics ps)"
  by (simp add: write_and_read_def Let_def call_def Inc_def split: option.splits sum.splits)

lemma transfer_never_exhausts:
  assumes "\<forall>a n. retryChunks ps a = Some n \<longrightarrow> n = 0"
  shows "RetriesExhaustedCounter (metrics (snd (sendChunkAndReceiveReceipt env peer ch ps))) =
           RetriesExhaustedCounter (metrics ps)"
  by (simp add: transfer_on_zero_entries [OF assms] write_and_read_exhausted_counter call_def
      split: option.splits)

text \<open>A failure of the Receipt read is returned to the caller.\<close>

lemma transfer_read_failure_surfaced:
  assumes "\<forall>a n. retryChunks ps a = Some n \<longrightarrow> n = 0"
    and "t_NewStream env = None" and "t_WriteMsg env = None" and "t_ReadMsg env = Inl e"
  shows "fst (sendChunkAndReceiveReceipt env peer ch ps) = Some e"
  using assms(2-4)
  by (simp add: transfer_on_zero_entries [OF assms(1)] write_and_read_def Let_def)

text \<open>
  C7. A transfer of the test's chunk on a fresh instance, every step succeeding: the calls
  are opening the stream, writing the Delivery with the deadline \<open>timeToWaitForReceipt\<close>
  (2000 ms), reading the Receipt, and closing. The deadline is given to the write alone; the
  read of the Receipt is made with no deadline, so no budget spans the write and the wait
  for the reply.
\<close>

theorem transfer_deadline_on_write_only:
  "calls (snd (sendChunkAndReceiveReceipt transfer_ok closestPeer
                 (NewChunk chunkAddress chunkData) New)) =
     [Streamer_NewStream closestPeer protocolName protocolVersion streamName,
      Stream_WriteMsgWithTimeout timeToWaitForReceipt (Delivery chunkAddress chunkData),
      Stream_ReadMsg, Stream_Close] \<and>
   map deadline (calls (snd (sendChunkAndReceiveReceipt transfer_ok closestPeer
                 (NewChunk chunkAddress chunkData) New))) =
     [None, Some 2000, None, None]"
  by (simp add: transfer_unfold transfer_ok_def New_def Bytes_def timeToWaitForReceipt_def)

text \<open>
  C3, as stated, fails. A successful transfer on a fresh instance leaves the entry 0 for the
  chunk's address, and a successful transfer that finds the entry 2 leaves the entry 2.
\<close>

theorem transfer_success_counterexample:
  "fst (sendChunkAndReceiveReceipt transfer_ok closestPeer (NewChunk chunkAddress chunkData)
          New) = None \<and>
   retryChunks (snd (sendChunkAndReceiveReceipt transfer_ok closestPeer
          (NewChunk chunkAddress chunkData) New)) chunkAddress = Some 0 \<and>
   fst (sendChunkAndReceiveReceipt transfer_ok closestPeer (NewChunk chunkAddress chunkData)
          (New\<lparr> retryChunks := [chunkAddress \<mapsto> 2] \<rparr>)) = None \<and>
   retryChunks (snd (sendChunkAndReceiveReceipt transfer_ok closestPeer
          (NewChunk chunkAddress chunkData)
          (New\<lparr> retryChunks := [chunkAddress \<mapsto> 2] \<rparr>))) chunkAddress = Some 2"
  by (simp add: transfer_unfold transfer_ok_def New_def MaxRetries_def)

text \<open>
  C3, amended. A transfer that completes successfully never clears the entry: afterwards the
  tracker holds an entry for the chunk's address, with count 0 if there was none before and
  with the earlier count otherwise, and every other entry is as before.
\<close>

theorem transfer_success_keeps_entry:
  assumes "fst (sendChunkAndReceiveReceipt env peer ch ps) = None"
  shows "retryChunks (snd (sendChunkAndReceiveReceipt env peer ch ps)) =
           (retryChunks ps)(Address ch \<mapsto>
              (case retryChunks ps (Address ch) of None \<Rightarrow> 0 | Some n \<Rightarrow> n))"
proof -
  note ok = transfer_success_not_exhausted [OF assms]
  show ?thesis
  proof (cases "retryChunks ps (Address ch)")
    case None
    with ok show ?thesis by (simp add: transfer_retryChunks)
  next
    case (Some n)
    with ok have "\<not> n > MaxRetries" by simp
    moreover from Some have "(retryChunks ps)(Address ch \<mapsto> n) = retryChunks ps"
      by (simp add: map_upd_triv)
    ultimately show ?thesis using ok Some by (simp add: transfer_retryChunks)
  qed
qed

theorem transfer_success_keeps_entry_witness:
  "fst (sendChunkAndReceiveReceipt transfer_ok closestPeer (NewChunk chunkAddress chunkData)
          (New\<lparr> retryChunks := [chunkAddress \<mapsto> 2] \<rparr>)) = None \<and>
   retryChunks (snd (sendChunkAndReceiveReceipt transfer_ok closestPeer
          (NewChunk chunkAddress chunkData) (New\<lparr> retryChunks := [chunkAddress \<mapsto> 2] \<rparr>))) =
     [chunkAddress \<mapsto> 2]"
proof -
  have ok: "fst (sendChunkAndReceiveReceipt transfer_ok closestPeer
                  (NewChunk chunkAddress chunkData)
                  (New\<lparr> retryChunks := [chunkAddress \<mapsto> 2] \<rparr>)) = None"
    by (simp add: transfer_unfold transfer_ok_def New_def MaxRetries_def)
  from transfer_success_keeps_entry [OF ok] ok show ?thesis
    by (simp add: New_def)
qed

text \<open>
  C4. Two attempts in a row for the test's chunk, each failing at the Delivery write, on a
  fresh instance: both return the write failure, and the entry for the address is 0 after
  the first and still 0 after the second. The count is not incremented.
\<close>

theorem transfer_failure_count_not_incremented:
  "fst (sendChunkAndReceiveReceipt transfer_write_fails closestPeer
          (NewChunk chunkAddress chunkData) New) = Some (ErrMsg ''write: deadline exceeded'') \<and>
   retryChunks (snd (sendChunkAndReceiveReceipt transfer_write_fails closestPeer
          (NewChunk chunkAddress chunkData) New)) chunkAddress = Some 0 \<and>
   fst (sendChunkAndReceiveReceipt transfer_write_fails closestPeer
          (NewChunk chunkAddress chunkData)
          (snd (sendChunkAndReceiveReceipt transfer_write_fails closestPeer
                  (NewChunk chunkAddress chunkData) New)))
     = Some (ErrMsg ''write: deadline exceeded'') \<and>
   retryChunks (snd (sendChunkAndReceiveReceipt transfer_write_fails closestPeer
          (NewChunk chunkAddress chunkData)
          (snd (sendChunkAndReceiveReceipt transfer_write_fails closestPeer
                  (NewChunk chunkAddress chunkData) New)))) chunkAddress = Some 0"
  by (simp add: transfer_unfold transfer_write_fails_def New_def MaxRetries_def)

section \<open>The worker loop\<close>

lemmas worker_unfold = worker_step_def handle_chunk_def worker_init_def

text \<open>The delay set when the feed closes depends on \<open>chunksInBatch\<close> alone, and no case of
  the loop lowers or resets that counter.\<close>

lemma worker_feed_closed:
  assumes "chunks w"
  shows "worker_step RecvClosed (w, ps) =
           (w\<lparr> chunks := False \<rparr>,
            call (Timer_Reset (if chunksInBatch w = 0 then 500 else 0)) ps)"
  using assms by (simp add: worker_step_def)

lemma worker_step_chunksInBatch:
  "chunksInBatch (fst (worker_step c (w, ps))) =
     (case c of
        RecvChunk ch env \<Rightarrow> if chunks w then chunksInBatch w + 1 else chunksInBatch w
      | _ \<Rightarrow> chunksInBatch w)"
  by (simp add: worker_step_def Let_def split: select_case.splits)

lemma chunksWorker_chunksInBatch_mono:
  "chunksInBatch (fst s) \<le> chunksInBatch (fst (chunksWorker cs s))"
proof (induction cs arbitrary: s)
  case Nil
  show ?case by simp
next
  case (Cons c cs)
  obtain w ps where s: "s = (w, ps)" by (cases s)
  have "chunksInBatch w \<le> chunksInBatch (fst (worker_step c (w, ps)))"
    by (simp add: worker_step_chunksInBatch split: select_case.splits)
  also have "\<dots> \<le> chunksInBatch (fst (chunksWorker cs (worker_step c (w, ps))))"
    by (rule Cons.IH)
  finally show ?case using s by simp
qed

text \<open>The worker loop keeps every tracker entry at 0, so in no run from \<open>New\<close> does a
  transfer reach the exhaustion branch.\<close>

lemma case_result:
  "(case p of (None, s) \<Rightarrow> g s | (Some e, s) \<Rightarrow> f e s) =
     (case fst p of None \<Rightarrow> g (snd p) | Some e \<Rightarrow> f e (snd p))"
  by (cases p) (simp split: option.splits)

lemma tracker_untouched:
  "retryChunks (call e ps) = retryChunks ps"
  "retryChunks (Inc counter ps) = retryChunks ps"
  by (simp_all add: call_def Inc_def)

lemma exhausted_counter_untouched:
  "RetriesExhaustedCounter (metrics (call e ps)) = RetriesExhaustedCounter (metrics ps)"
  "RetriesExhaustedCounter (metrics (Inc TotalChunksToBeSentCounter_update ps)) =
     RetriesExhaustedCounter (metrics ps)"
  "RetriesExhaustedCounter (metrics (Inc ErrorSettingChunkToSynced_update ps)) =
     RetriesExhaustedCounter (metrics ps)"
  "RetriesExhaustedCounter (metrics (Inc TotalChunksSynced_update ps)) =
     RetriesExhaustedCounter (metrics ps)"
  by (simp_all add: call_def Inc_def)

lemma handle_chunk_entries_zero:
  assumes "\<forall>a n. retryChunks ps a = Some n \<longrightarrow> n = 0"
  shows "\<forall>a n. retryChunks (handle_chunk ch env ps) a = Some n \<longrightarrow> n = 0"
proof -
  obtain peer err where cp: "c_ClosestPeer env = (peer, err)"
    by (cases "c_ClosestPeer env")
  have z2: "\<forall>a n. retryChunks (call (ClosestPeer (Address ch))
                     (Inc TotalChunksToBeSentCounter_update ps)) a = Some n \<longrightarrow> n = 0"
    using assms by (simp add: tracker_untouched)
  note z3 = transfer_entries_zero [OF z2, of "c_transfer env" peer ch]
  show ?thesis
    using assms z3 cp
    by (simp add: handle_chunk_def Let_def case_result tracker_untouched
        split: option.splits)
qed

lemma handle_chunk_never_exhausts:
  assumes "\<forall>a n. retryChunks ps a = Some n \<longrightarrow> n = 0"
  shows "RetriesExhaustedCounter (metrics (handle_chunk ch env ps)) =
           RetriesExhaustedCounter (metrics ps)"
proof -
  obtain peer err where cp: "c_ClosestPeer env = (peer, err)"
    by (cases "c_ClosestPeer env")
  have z2: "\<forall>a n. retryChunks (call (ClosestPeer (Address ch))
                     (Inc TotalChunksToBeSentCounter_update ps)) a = Some n \<longrightarrow> n = 0"
    using assms by (simp add: tracker_untouched)
  note n3 = transfer_never_exhausts [OF z2, of "c_transfer env" peer ch]
  show ?thesis
    using n3 cp
    by (simp add: handle_chunk_def Let_def case_result exhausted_counter_untouched
        split: option.splits)
qed

lemma worker_step_entries_zero:
  assumes "\<forall>a n. retryChunks ps a = Some n \<longrightarrow> n = 0"
  shows "(\<forall>a n. retryChunks (snd (worker_step c (w, ps))) a = Some n \<longrightarrow> n = 0) \<and>
         RetriesExhaustedCounter (metrics (snd (worker_step c (w, ps)))) =
           RetriesExhaustedCounter (metrics ps)"
  using assms handle_chunk_entries_zero [OF assms] handle_chunk_never_exhausts [OF assms]
  by (simp add: worker_step_def Let_def tracker_untouched exhausted_counter_untouched
      split: select_case.splits)

lemma chunksWorker_never_exhausts:
  assumes "\<forall>a n. retryChunks (snd s) a = Some n \<longrightarrow> n = 0"
  shows "(\<forall>a n. retryChunks (snd (chunksWorker cs s)) a = Some n \<longrightarrow> n = 0) \<and>
         RetriesExhaustedCounter (metrics (snd (chunksWorker cs s))) =
           RetriesExhaustedCounter (metrics (snd s))"
  using assms
proof (induction cs arbitrary: s)
  case Nil
  then show ?case by simp
next
  case (Cons c cs)
  obtain w ps where s: "s = (w, ps)" by (cases s)
  from Cons.prems s have z: "\<forall>a n. retryChunks ps a = Some n \<longrightarrow> n = 0" by simp
  note step = worker_step_entries_zero [OF z, of c w]
  from step have "\<forall>a n. retryChunks (snd (worker_step c (w, ps))) a = Some n \<longrightarrow> n = 0"
    by blast
  from Cons.IH [OF this] step Cons.prems s show ?case by simp
qed

text \<open>
  C2. Five sweeps of the worker on a fresh instance, each meeting the test's chunk and each
  failing at the Delivery write. After four failed attempts, more than \<open>MaxRetries\<close>, the
  fifth is not given up: five streams have been opened to the peer, the fifth Delivery has
  been written, the tracker still holds the entry 0 for the address, and the exhaustion
  counter is 0.
\<close>

theorem worker_retries_never_exhausted:
  "streams_opened (calls (snd (chunksWorker
       (sweep_write_fails @ sweep_write_fails @ sweep_write_fails @ sweep_write_fails @
        sweep_write_fails) (worker_init, New)))) =
     [closestPeer, closestPeer, closestPeer, closestPeer, closestPeer] \<and>
   deliveries_written (calls (snd (chunksWorker
       (sweep_write_fails @ sweep_write_fails @ sweep_write_fails @ sweep_write_fails @
        sweep_write_fails) (worker_init, New)))) =
     [Delivery chunkAddress chunkData, Delivery chunkAddress chunkData,
      Delivery chunkAddress chunkData, Delivery chunkAddress chunkData,
      Delivery chunkAddress chunkData] \<and>
   retryChunks (snd (chunksWorker
       (sweep_write_fails @ sweep_write_fails @ sweep_write_fails @ sweep_write_fails @
        sweep_write_fails) (worker_init, New))) chunkAddress = Some 0 \<and>
   RetriesExhaustedCounter (metrics (snd (chunksWorker
       (sweep_write_fails @ sweep_write_fails @ sweep_write_fails @ sweep_write_fails @
        sweep_write_fails) (worker_init, New)))) = 0"
  by (simp add: sweep_write_fails_def worker_unfold transfer_unfold chunk_write_fails_def
      transfer_write_fails_def New_def newMetrics_def MaxRetries_def Bytes_def)

text \<open>
  C6. The worker subscribes and receives the test's chunk; routing fails with an error that
  is not want-self. The worker then opens a stream to the peer value returned beside the
  error (the empty address), writes the Delivery, reads a Receipt and marks the chunk synced:
  the transfer is invoked and nothing is logged.
\<close>

theorem worker_routing_failure_still_transfers:
  "calls (snd (chunksWorker
                 [TimerC, RecvChunk (NewChunk chunkAddress chunkData) chunk_routing_fails]
                 (worker_init, New))) =
     [Storer_SubscribePush, Timer_Reset retryInterval, ClosestPeer chunkAddress,
      Streamer_NewStream [] protocolName protocolVersion streamName,
      Stream_WriteMsgWithTimeout timeToWaitForReceipt (Delivery chunkAddress chunkData),
      Stream_ReadMsg, Stream_Close, Storer_Set ModeSetSyncPush chunkAddress]"
  by (simp add: worker_unfold transfer_unfold chunk_routing_fails_def transfer_ok_def
      New_def Bytes_def)

text \<open>
  C8. The first feed closes without having yielded a chunk: the delay set is 0, not 500 ms.
  The first feed yields one chunk and closes: the delay set is 500 ms although the batch was
  not empty. (The delays listed are those of every \<open>timer.Reset\<close>: the first is the retry
  interval set when subscribing, the second the one set when the feed closes.)
\<close>

theorem worker_debounce_wrong_batches:
  "timer_resets (calls (snd (chunksWorker [TimerC, RecvClosed] (worker_init, New)))) =
     [retryInterval, 0] \<and>
   timer_resets (calls (snd (chunksWorker
        [TimerC, RecvChunk (NewChunk chunkAddress chunkData) chunk_want_self, RecvClosed]
        (worker_init, New)))) = [retryInterval, 500]"
  by (simp add: worker_unfold Let_def call_def Inc_def chunk_want_self_def New_def)

section \<open>Close is single-use\<close>

lemma Close_open: "quit ps = ChanOpen \<Longrightarrow> Close ps = Inr (None, ps\<lparr> quit := ChanClosed \<rparr>)"
  by (simp add: Close_def)

lemma Close_closed: "quit ps = ChanClosed \<Longrightarrow> Close ps = Inl CloseOfClosedChannel"
  by (simp add: Close_def)

lemma Close_nil: "quit ps = ChanNil \<Longrightarrow> Close ps = Inl CloseOfNilChannel"
  by (simp add: Close_def)

text \<open>\<open>New\<close> makes the channel \<open>quit\<close>, and nothing but \<open>Close\<close> closes it: the handler, the
  transfer and the worker loop leave it as it is. So on every instance in use that has not
  been closed, \<open>quit\<close> is open.\<close>

lemma New_quit: "quit New = ChanOpen"
  by (simp add: New_def)

lemma quit_untouched:
  "quit (call e ps) = quit ps"
  "quit (Inc counter ps) = quit ps"
  by (simp_all add: call_def Inc_def)

lemma handler_quit: "quit (snd (handler env ps)) = quit ps"
  by (simp add: handler_unfold split: sum.splits option.splits prod.splits)

lemma transfer_quit: "quit (snd (sendChunkAndReceiveReceipt env peer ch ps)) = quit ps"
  by (simp add: transfer_unfold split: sum.splits option.splits)

lemma handle_chunk_quit: "quit (handle_chunk ch env ps) = quit ps"
proof -
  obtain peer err where cp: "c_ClosestPeer env = (peer, err)"
    by (cases "c_ClosestPeer env")
  show ?thesis
    using cp
    by (simp add: handle_chunk_def Let_def case_result transfer_quit quit_untouched
        split: option.splits)
qed

lemma worker_step_quit: "quit (snd (worker_step c (w, ps))) = quit ps"
  by (simp add: worker_step_def Let_def quit_untouched handle_chunk_quit
      split: select_case.splits)

lemma chunksWorker_quit: "quit (snd (chunksWorker cs s)) = quit (snd s)"
proof (induction cs arbitrary: s)
  case Nil
  show ?case by simp
next
  case (Cons c cs)
  obtain w ps where s: "s = (w, ps)" by (cases s)
  from Cons.IH [of "worker_step c (w, ps)"] s show ?case
    by (simp add: worker_step_quit)
qed

text \<open>
  C10. On every instance whose channel \<open>quit\<close> is open, whatever else the instance has done,
  \<open>Close\<close> returns nil and leaves the channel closed. On every instance, whenever \<open>Close\<close>
  returns, the error it returns is nil, and a second call on the instance it leaves behind
  panics with a close of a closed channel.
\<close>

theorem Close_returns_nil_and_is_single_use:
  "(quit ps = ChanOpen \<longrightarrow> Close ps = Inr (None, ps\<lparr> quit := ChanClosed \<rparr>)) \<and>
   (\<forall>e ps'. Close ps = Inr (e, ps') \<longrightarrow> e = None \<and> Close ps' = Inl CloseOfClosedChannel)"
proof -
  have again: "e = None \<and> Close ps' = Inl CloseOfClosedChannel"
    if ret: "Close ps = Inr (e, ps')" for e ps'
  proof (cases "quit ps")
    case ChanNil
    from Close_nil [OF ChanNil] ret show ?thesis by simp
  next
    case ChanOpen
    from Close_open [OF ChanOpen] ret have "e = None" and "ps' = ps\<lparr> quit := ChanClosed \<rparr>"
      by simp_all
    then show ?thesis by (simp add: Close_closed)
  next
    case ChanClosed
    from Close_closed [OF ChanClosed] ret show ?thesis by simp
  qed
  from Close_open again show ?thesis by blast
qed

text \<open>The instance here has handled the test's Delivery before it is closed.\<close>

theorem Close_returns_nil_and_is_single_use_witness:
  "quit (snd (handler env_closer_peer New)) = ChanOpen \<and>
   Close (snd (handler env_closer_peer New)) =
     Inr (None, (snd (handler env_closer_peer New))\<lparr> quit := ChanClosed \<rparr>) \<and>
   Close ((snd (handler env_closer_peer New))\<lparr> quit := ChanClosed \<rparr>) =
     Inl CloseOfClosedChannel"
proof -
  have q: "quit (snd (handler env_closer_peer New)) = ChanOpen"
    by (simp add: handler_quit New_quit)
  from Close_returns_nil_and_is_single_use [of "snd (handler env_closer_peer New)"] q
  show ?thesis by simp
qed

end
